theory Spec2Isabelle
  imports Complex_Main "HOL-Library.Multiset"
begin

section \<open>Data model\<close>

text \<open>
  The two route files \<^verbatim>\<open>server/api/full.js\<close> (REST verbs, JSON bodies) and
  \<^verbatim>\<open>server/api/test.js\<close> (GET routes with path parameters) share one schema:
  \<^verbatim>\<open>users(id SERIAL PRIMARY KEY, username UNIQUE NOT NULL)\<close> and
  \<^verbatim>\<open>locations(id SERIAL PRIMARY KEY, user_id, zip, lat FLOAT, lon FLOAT)\<close>.

  Scope of the model. Request values are taken at the type of the column they are bound
  to: a zip is a string, a coordinate is a number, an id is a natural number, and each
  optional value is an \<open>option\<close> (\<open>None\<close> is JavaScript's \<open>undefined\<close>/\<open>null\<close> and
  SQL's \<open>NULL\<close>). A string is the list of its characters. Coordinates are real numbers
  standing for the doubles: only their being zero or not and their text in a URL are ever
  used (\<open>NaN\<close>, which JavaScript also takes as false, is left out). The two tables
  exist. A statement throws when a value does not go into its column: a text longer than
  its \<^verbatim>\<open>VARCHAR\<close>, an id beyond the 32-bit \<^verbatim>\<open>INTEGER\<close>, a sequence that has run out;
  the handler then answers 500 from its \<^verbatim>\<open>catch\<close> branch. A table is the list of its
  rows in the order a \<^verbatim>\<open>SELECT\<close> returns them. full.js creates the tables once, at
  startup, before it listens; test.js does it from inside every route.
\<close>

record user =
  user_key :: nat
  username :: string

text \<open>The three mode fields of a location: a request payload, and the projection
  \<^verbatim>\<open>SELECT zip, lat, lon\<close>.\<close>

record loc =
  zip_code :: "string option"
  lat :: "real option"
  lon :: "real option"

record location =
  row_id :: nat
  user_id :: nat
  mode_fields :: loc

record database =
  users :: "user list"
  locations :: "location list"
  users_id_seq :: nat
  locations_id_seq :: nat

text \<open>Every \<^verbatim>\<open>pool.query\<close> call is recorded, by the statement it sends.\<close>

datatype stmt =
    Create_table string
  | Insert_user string
  | Select_user_id string
  | Select_locations nat
  | Select_zip_lat_lon nat
  | Count_locations nat
  | Insert_location nat loc
  | Update_location nat loc
  | Delete_location nat

fun is_lookup :: "stmt \<Rightarrow> bool" where
  "is_lookup (Select_user_id _) = True"
| "is_lookup (Select_locations _) = True"
| "is_lookup (Select_zip_lat_lon _) = True"
| "is_lookup (Count_locations _) = True"
| "is_lookup _ = False"

text \<open>The state a handler runs in: the database, the process flag \<^verbatim>\<open>dbInitialized\<close> of
  test.js, and the statements issued so far.\<close>

record world =
  db :: database
  dbInitialized :: bool
  issued :: "stmt list"

datatype error = Error (message: string)

text \<open>The provider's response document: an optional \<^verbatim>\<open>city\<close> with optional
  \<^verbatim>\<open>name\<close> and \<^verbatim>\<open>country\<close>, and the forecast entries, which are passed through.\<close>

record city_info =
  name :: "string option"
  country :: "string option"

record forecast_doc =
  city :: "city_info option"
  entries :: string

text \<open>One element of the weather response: \<^verbatim>\<open>{location, place, forecast}\<close> or
  \<^verbatim>\<open>{location, error}\<close>; a key that the object does not have is \<open>None\<close>.\<close>

record forecast_result =
  location :: loc
  place :: "string option"
  forecast :: "forecast_doc option"
  error :: "string option"

text \<open>What a handler sends: \<^verbatim>\<open>res.json(...)\<close> with status 200, or
  \<^verbatim>\<open>res.status(n).json({ error })\<close>.\<close>

datatype response =
    Message string
  | Rows "location list"
  | Forecasts "forecast_result list"
  | Failure nat string

section \<open>JavaScript truthiness and text\<close>

definition truthy_str :: "string option \<Rightarrow> bool" where
  "truthy_str s = (case s of None \<Rightarrow> False | Some t \<Rightarrow> t \<noteq> [])"

definition truthy_num :: "real option \<Rightarrow> bool" where
  "truthy_num x = (case x of None \<Rightarrow> False | Some r \<Rightarrow> r \<noteq> 0)"

text \<open>\<^verbatim>\<open>v || null\<close>\<close>

definition str_or_null :: "string option \<Rightarrow> string option" where
  "str_or_null s = (if truthy_str s then s else None)"

definition num_or_null :: "real option \<Rightarrow> real option" where
  "num_or_null x = (if truthy_num x then x else None)"

text \<open>A value inside a template literal. The text of a number is the JavaScript
  runtime's and is a parameter, \<open>number_text\<close>.\<close>

definition template_str :: "string option \<Rightarrow> string" where
  "template_str s = (case s of None \<Rightarrow> ''null'' | Some t \<Rightarrow> t)"

definition template_num :: "(real \<Rightarrow> string) \<Rightarrow> real option \<Rightarrow> string" where
  "template_num number_text x = (case x of None \<Rightarrow> ''null'' | Some r \<Rightarrow> number_text r)"

section \<open>The forecast URL\<close>

text \<open>\<^verbatim>\<open>buildForecastUrl({ zip, lat, lon })\<close>, the same in both files. \<open>API_KEY\<close> is the
  text of \<^verbatim>\<open>process.env.OPEN_WEATHER_API_KEY\<close>.\<close>

definition forecast_endpoint :: string where
  "forecast_endpoint = ''https://api.openweathermap.org/data/2.5/forecast?''"

definition buildForecastUrl :: "(real \<Rightarrow> string) \<Rightarrow> string \<Rightarrow> loc \<Rightarrow> error + string" where
  "buildForecastUrl number_text API_KEY l =
     (if truthy_num (lat l) \<and> truthy_num (lon l) then
        Inr (forecast_endpoint @ ''lat='' @ template_num number_text (lat l)
             @ ''&lon='' @ template_num number_text (lon l)
             @ ''&appid='' @ API_KEY @ ''&units=metric'')
      else if truthy_str (zip_code l) then
        (let zip' = template_str (zip_code l);
             zipCode = (if CHR '','' \<in> set zip' then zip' else zip' @ '',us'')
         in Inr (forecast_endpoint @ ''zip='' @ zipCode
                 @ ''&appid='' @ API_KEY @ ''&units=metric''))
      else Inl (Error ''Invalid location''))"

section \<open>The weather loop\<close>

text \<open>The body of the \<^verbatim>\<open>for (const loc of rows)\<close> loop. \<open>get\<close> is
  \<^verbatim>\<open>axios.get\<close> for this iteration: the response document, or the error it throws.\<close>

definition place_of :: "forecast_doc \<Rightarrow> string" where
  "place_of data =
     (let cityName = (case city data of None \<Rightarrow> None | Some c \<Rightarrow> str_or_null (name c));
          country' = (case city data of None \<Rightarrow> None | Some c \<Rightarrow> str_or_null (country c))
      in template_str cityName @ (if truthy_str country' then '', '' @ template_str country' else []))"

definition forecast_one ::
  "(real \<Rightarrow> string) \<Rightarrow> string \<Rightarrow> (string \<Rightarrow> error + forecast_doc) \<Rightarrow> loc \<Rightarrow> forecast_result" where
  "forecast_one number_text API_KEY get l =
     (case buildForecastUrl number_text API_KEY l of
        Inl err \<Rightarrow> \<lparr>location = l, place = None, forecast = None, error = Some (message err)\<rparr>
      | Inr url \<Rightarrow>
          (case get url of
             Inl err \<Rightarrow> \<lparr>location = l, place = None, forecast = None, error = Some (message err)\<rparr>
           | Inr data \<Rightarrow>
               \<lparr>location = l, place = Some (place_of data), forecast = Some data, error = None\<rparr>))"

text \<open>The loop pushes one element per row onto \<open>data\<close>. \<open>axios_get i\<close> is the
  provider as it answers during iteration \<open>i\<close>.\<close>

fun forecast_loop ::
  "(real \<Rightarrow> string) \<Rightarrow> string \<Rightarrow> (nat \<Rightarrow> string \<Rightarrow> error + forecast_doc) \<Rightarrow> nat \<Rightarrow>
   loc list \<Rightarrow> forecast_result list \<Rightarrow> forecast_result list" where
  "forecast_loop number_text API_KEY axios_get i [] data = data"
| "forecast_loop number_text API_KEY axios_get i (l # rows) data =
     forecast_loop number_text API_KEY axios_get (Suc i) rows
       (data @ [forecast_one number_text API_KEY (axios_get i) l])"

section \<open>The queries\<close>

text \<open>The rows that the two \<^verbatim>\<open>WHERE\<close> clauses select.\<close>

definition ids_of :: "string \<Rightarrow> database \<Rightarrow> nat list" where
  "ids_of uname d = map user_key (filter (\<lambda>u. username u = uname) (users d))"

definition locations_of :: "nat \<Rightarrow> database \<Rightarrow> location list" where
  "locations_of uid d = filter (\<lambda>r. user_id r = uid) (locations d)"

text \<open>What a column takes. \<^verbatim>\<open>INTEGER\<close> and \<^verbatim>\<open>SERIAL\<close> are 32-bit. A text bound to a
  \<^verbatim>\<open>VARCHAR(n)\<close> column is stored as it is when it has at most \<open>n\<close> characters, cut to
  \<open>n\<close> characters when all that is cut are spaces, and refused otherwise.\<close>

definition int4_max :: nat where
  "int4_max = 2147483647"

definition varchar :: "nat \<Rightarrow> string \<Rightarrow> string option" where
  "varchar n s =
     (if length s \<le> n then Some s
      else if list_all (\<lambda>c. c = CHR '' '') (drop n s) then Some (take n s)
      else None)"

text \<open>The three mode values as the columns \<^verbatim>\<open>zip VARCHAR(20), lat FLOAT, lon FLOAT\<close> store
  them; \<open>None\<close> when the statement throws.\<close>

definition column_values :: "loc \<Rightarrow> loc option" where
  "column_values l =
     (case zip_code l of
        None \<Rightarrow> Some l
      | Some z \<Rightarrow> (case varchar 20 z of None \<Rightarrow> None | Some z' \<Rightarrow> Some (l\<lparr>zip_code := Some z'\<rparr>)))"

text \<open>One definition per SQL statement of the two files. Each records its statement. A
  statement that can throw returns whether it ran; one that threw has changed nothing.\<close>

definition q_create_table :: "string \<Rightarrow> world \<Rightarrow> world" where
  \<comment> \<open>\<^verbatim>\<open>CREATE TABLE IF NOT EXISTS\<close>: the table exists, its rows stay.\<close>
  "q_create_table t w = w\<lparr>issued := issued w @ [Create_table t]\<rparr>"

definition q_insert_user :: "string \<Rightarrow> world \<Rightarrow> bool \<times> world" where
  \<comment> \<open>\<^verbatim>\<open>INSERT INTO users (username) VALUES ($1) ON CONFLICT (username) DO NOTHING\<close>;
      the sequence gives out a value whether or not the row is kept.\<close>
  "q_insert_user uname w =
     (let d = db w; w' = w\<lparr>issued := issued w @ [Insert_user uname]\<rparr>
      in case varchar 100 uname of
           None \<Rightarrow> (False, w')
         | Some stored \<Rightarrow>
             if int4_max < users_id_seq d then (False, w')
             else
               (True,
                w'\<lparr>db := d\<lparr>users :=
                              (if stored \<in> set (map username (users d)) then users d
                               else users d @ [\<lparr>user_key = users_id_seq d, username = stored\<rparr>]),
                            users_id_seq := Suc (users_id_seq d)\<rparr>\<rparr>))"

definition q_select_user_id :: "string \<Rightarrow> world \<Rightarrow> nat list \<times> world" where
  \<comment> \<open>\<^verbatim>\<open>SELECT id FROM users WHERE username=$1\<close>\<close>
  "q_select_user_id uname w =
     (ids_of uname (db w), w\<lparr>issued := issued w @ [Select_user_id uname]\<rparr>)"

definition q_select_locations :: "nat \<Rightarrow> world \<Rightarrow> location list \<times> world" where
  \<comment> \<open>\<^verbatim>\<open>SELECT * FROM locations WHERE user_id=$1\<close>\<close>
  "q_select_locations uid w =
     (locations_of uid (db w), w\<lparr>issued := issued w @ [Select_locations uid]\<rparr>)"

definition q_select_zip_lat_lon :: "nat \<Rightarrow> world \<Rightarrow> loc list \<times> world" where
  \<comment> \<open>\<^verbatim>\<open>SELECT zip, lat, lon FROM locations WHERE user_id=$1\<close>\<close>
  "q_select_zip_lat_lon uid w =
     (map mode_fields (locations_of uid (db w)),
      w\<lparr>issued := issued w @ [Select_zip_lat_lon uid]\<rparr>)"

definition q_count_locations :: "nat \<Rightarrow> world \<Rightarrow> nat \<times> world" where
  \<comment> \<open>\<^verbatim>\<open>SELECT COUNT(*) FROM locations WHERE user_id=$1\<close>, read with \<^verbatim>\<open>parseInt\<close>\<close>
  "q_count_locations uid w =
     (length (locations_of uid (db w)), w\<lparr>issued := issued w @ [Count_locations uid]\<rparr>)"

definition q_insert_location :: "nat \<Rightarrow> loc \<Rightarrow> world \<Rightarrow> bool \<times> world" where
  \<comment> \<open>\<^verbatim>\<open>INSERT INTO locations (user_id, zip, lat, lon) VALUES ($1, $2, $3, $4)\<close>; a column
      that test.js leaves out of its \<^verbatim>\<open>INSERT\<close> is \<open>NULL\<close>.\<close>
  "q_insert_location uid l w =
     (let d = db w; w' = w\<lparr>issued := issued w @ [Insert_location uid l]\<rparr>
      in case column_values l of
           None \<Rightarrow> (False, w')
         | Some stored \<Rightarrow>
             if int4_max < locations_id_seq d then (False, w')
             else
               (True,
                w'\<lparr>db := d\<lparr>locations := locations d @
                              [\<lparr>row_id = locations_id_seq d, user_id = uid, mode_fields = stored\<rparr>],
                            locations_id_seq := Suc (locations_id_seq d)\<rparr>\<rparr>))"

definition q_update_location :: "nat \<Rightarrow> loc \<Rightarrow> world \<Rightarrow> bool \<times> world" where
  \<comment> \<open>\<^verbatim>\<open>UPDATE locations SET zip=$1, lat=$2, lon=$3 WHERE id=$4\<close>; the new version of an
      updated row comes after the rows that were left alone.\<close>
  "q_update_location i l w =
     (let d = db w; w' = w\<lparr>issued := issued w @ [Update_location i l]\<rparr>
      in case column_values l of
           None \<Rightarrow> (False, w')
         | Some stored \<Rightarrow>
             if int4_max < i then (False, w')
             else
               (True,
                w'\<lparr>db := d\<lparr>locations :=
                              filter (\<lambda>r. row_id r \<noteq> i) (locations d) @
                              map (\<lambda>r. r\<lparr>mode_fields := stored\<rparr>)
                                (filter (\<lambda>r. row_id r = i) (locations d))\<rparr>\<rparr>))"

definition q_delete_location :: "nat \<Rightarrow> world \<Rightarrow> bool \<times> world" where
  \<comment> \<open>\<^verbatim>\<open>DELETE FROM locations WHERE id=$1\<close>\<close>
  "q_delete_location i w =
     (let d = db w; w' = w\<lparr>issued := issued w @ [Delete_location i]\<rparr>
      in if int4_max < i then (False, w')
         else (True, w'\<lparr>db := d\<lparr>locations := filter (\<lambda>r. row_id r \<noteq> i) (locations d)\<rparr>\<rparr>))"

text \<open>\<^verbatim>\<open>try { await pool.query(...); res.json({ message }) } catch (err) { res.status(500)... }\<close>,
  for the statement that ends a route.\<close>

definition message_or_500 :: "string \<Rightarrow> bool \<times> world \<Rightarrow> response \<times> world" where
  "message_or_500 msg r =
     (if fst r then Message msg else Failure 500 ''internal server error'', snd r)"

section \<open>The routes of full.js\<close>

text \<open>The two shape checks that open \<^verbatim>\<open>POST /location\<close> and \<^verbatim>\<open>PUT /location/:id\<close>:
  the message of the 400 response, or \<open>None\<close> when both checks pass.\<close>

definition shape_error :: "loc \<Rightarrow> string option" where
  "shape_error p =
     (if \<not> truthy_str (zip_code p) \<and> \<not> (truthy_num (lat p) \<and> truthy_num (lon p))
        then Some ''Either zip or lat/lon required''
      else if truthy_str (zip_code p) \<and> (truthy_num (lat p) \<or> truthy_num (lon p))
        then Some ''Provide only zip or lat/lon, not both''
      else None)"

text \<open>\<^verbatim>\<open>[zip || null, lat || null, lon || null]\<close>\<close>

definition or_null :: "loc \<Rightarrow> loc" where
  "or_null p = \<lparr>zip_code = str_or_null (zip_code p), lat = num_or_null (lat p),
                lon = num_or_null (lon p)\<rparr>"

definition post_user :: "string option \<Rightarrow> world \<Rightarrow> response \<times> world" where
  "post_user uname w =
     (if \<not> truthy_str uname then (Failure 400 ''username required'', w)
      else message_or_500 ''user created or exists'' (q_insert_user (template_str uname) w))"

definition get_locations :: "string option \<Rightarrow> world \<Rightarrow> response \<times> world" where
  "get_locations uname w =
     (if \<not> truthy_str uname then (Failure 400 ''username required'', w)
      else
        (case q_select_user_id (template_str uname) w of
           ([], w1) \<Rightarrow> (Failure 404 ''user not found'', w1)
         | (uid # _, w1) \<Rightarrow>
             (case q_select_locations uid w1 of (rows, w2) \<Rightarrow> (Rows rows, w2))))"

definition post_location :: "string option \<Rightarrow> loc \<Rightarrow> world \<Rightarrow> response \<times> world" where
  "post_location uname p w =
     (if \<not> truthy_str uname then (Failure 400 ''username required'', w)
      else
        (case shape_error p of
           Some msg \<Rightarrow> (Failure 400 msg, w)
         | None \<Rightarrow>
             (case q_select_user_id (template_str uname) w of
                ([], w1) \<Rightarrow> (Failure 404 ''user not found'', w1)
              | (uid # _, w1) \<Rightarrow>
                  (case q_count_locations uid w1 of
                     (n, w2) \<Rightarrow>
                       if n \<ge> 5 then (Failure 400 ''max 5 locations'', w2)
                       else message_or_500 ''location added''
                              (q_insert_location uid (or_null p) w2)))))"

definition put_location :: "nat \<Rightarrow> loc \<Rightarrow> world \<Rightarrow> response \<times> world" where
  "put_location i p w =
     (case shape_error p of
        Some msg \<Rightarrow> (Failure 400 msg, w)
      | None \<Rightarrow> message_or_500 ''location updated'' (q_update_location i (or_null p) w))"

definition delete_location :: "nat \<Rightarrow> world \<Rightarrow> response \<times> world" where
  "delete_location i w = message_or_500 ''location deleted'' (q_delete_location i w)"

definition get_weather ::
  "(real \<Rightarrow> string) \<Rightarrow> string \<Rightarrow> (nat \<Rightarrow> string \<Rightarrow> error + forecast_doc) \<Rightarrow>
   string option \<Rightarrow> world \<Rightarrow> response \<times> world" where
  "get_weather number_text API_KEY axios_get uname w =
     (if \<not> truthy_str uname then (Failure 400 ''username required'', w)
      else
        (case q_select_user_id (template_str uname) w of
           ([], w1) \<Rightarrow> (Failure 404 ''user not found'', w1)
         | (uid # _, w1) \<Rightarrow>
             (case q_select_zip_lat_lon uid w1 of
                (rows, w2) \<Rightarrow>
                  (Forecasts (forecast_loop number_text API_KEY axios_get 0 rows []), w2))))"

section \<open>The routes of test.js\<close>

text \<open>Every route of test.js first awaits \<^verbatim>\<open>initDB()\<close>, which is guarded by the process
  flag. A path parameter is always present.\<close>

definition initDB :: "world \<Rightarrow> world" where
  "initDB w =
     (if dbInitialized w then w
      else (q_create_table ''locations'' (q_create_table ''users'' w))\<lparr>dbInitialized := True\<rparr>)"

definition api_user_create :: "string \<Rightarrow> world \<Rightarrow> response \<times> world" where
  "api_user_create uname w =
     message_or_500 ''user created or exists'' (q_insert_user uname (initDB w))"

definition api_location_list :: "string \<Rightarrow> world \<Rightarrow> response \<times> world" where
  "api_location_list uname w =
     (case q_select_user_id uname (initDB w) of
        ([], w1) \<Rightarrow> (Failure 404 ''user not found'', w1)
      | (uid # _, w1) \<Rightarrow>
          (case q_select_locations uid w1 of (rows, w2) \<Rightarrow> (Rows rows, w2)))"

definition api_location_add :: "string \<Rightarrow> loc \<Rightarrow> world \<Rightarrow> response \<times> world" where
  \<comment> \<open>the common body of the two add routes, which differ in the columns they insert\<close>
  "api_location_add uname l w =
     (case q_select_user_id uname (initDB w) of
        ([], w1) \<Rightarrow> (Failure 404 ''user not found'', w1)
      | (uid # _, w1) \<Rightarrow>
          (case q_count_locations uid w1 of
             (n, w2) \<Rightarrow>
               if n \<ge> 5 then (Failure 400 ''max 5 locations'', w2)
               else message_or_500 ''location added'' (q_insert_location uid l w2)))"

definition api_location_add_zip :: "string \<Rightarrow> string \<Rightarrow> world \<Rightarrow> response \<times> world" where
  "api_location_add_zip uname zip' w =
     api_location_add uname \<lparr>zip_code = Some zip', lat = None, lon = None\<rparr> w"

definition api_location_add_lat_lon :: "string \<Rightarrow> real \<Rightarrow> real \<Rightarrow> world \<Rightarrow> response \<times> world" where
  "api_location_add_lat_lon uname la lo w =
     api_location_add uname \<lparr>zip_code = None, lat = Some la, lon = Some lo\<rparr> w"

definition api_location_update_zip :: "nat \<Rightarrow> string \<Rightarrow> world \<Rightarrow> response \<times> world" where
  \<comment> \<open>\<^verbatim>\<open>UPDATE locations SET zip=$1, lat=NULL, lon=NULL WHERE id=$2\<close>\<close>
  "api_location_update_zip i zip' w =
     message_or_500 ''location updated''
       (q_update_location i \<lparr>zip_code = Some zip', lat = None, lon = None\<rparr> (initDB w))"

definition api_location_update_lat_lon :: "nat \<Rightarrow> real \<Rightarrow> real \<Rightarrow> world \<Rightarrow> response \<times> world" where
  \<comment> \<open>\<^verbatim>\<open>UPDATE locations SET lat=$1, lon=$2, zip=NULL WHERE id=$3\<close>\<close>
  "api_location_update_lat_lon i la lo w =
     message_or_500 ''location updated''
       (q_update_location i \<lparr>zip_code = None, lat = Some la, lon = Some lo\<rparr> (initDB w))"

definition api_location_delete :: "nat \<Rightarrow> world \<Rightarrow> response \<times> world" where
  "api_location_delete i w =
     message_or_500 ''location deleted'' (q_delete_location i (initDB w))"

definition api_weather ::
  "(real \<Rightarrow> string) \<Rightarrow> string \<Rightarrow> (nat \<Rightarrow> string \<Rightarrow> error + forecast_doc) \<Rightarrow>
   string \<Rightarrow> world \<Rightarrow> response \<times> world" where
  "api_weather number_text API_KEY axios_get uname w =
     (case q_select_user_id uname (initDB w) of
        ([], w1) \<Rightarrow> (Failure 404 ''user not found'', w1)
      | (uid # _, w1) \<Rightarrow>
          (case q_select_zip_lat_lon uid w1 of
             (rows, w2) \<Rightarrow>
               (Forecasts (forecast_loop number_text API_KEY axios_get 0 rows []), w2)))"

section \<open>The constraints of the schema\<close>

text \<open>\<^verbatim>\<open>username UNIQUE\<close>, the two \<^verbatim>\<open>PRIMARY KEY\<close>s, and ids that come from the two
  sequences.\<close>

definition well_formed :: "database \<Rightarrow> bool" where
  "well_formed d \<longleftrightarrow>
     distinct (map username (users d))
     \<and> distinct (map user_key (users d))
     \<and> (\<forall>u \<in> set (users d). user_key u < users_id_seq d)
     \<and> distinct (map row_id (locations d))
     \<and> (\<forall>r \<in> set (locations d). row_id r < locations_id_seq d)"

definition empty_database :: database where
  "empty_database = \<lparr>users = [], locations = [], users_id_seq = 1, locations_id_seq = 1\<rparr>"

section \<open>Example states\<close>

text \<open>A user with three locations, on a process that has not yet run \<^verbatim>\<open>initDB\<close>; a user at
  the cap; a provider that answers every request but the second.\<close>

definition ann_world :: world where
  "ann_world =
     \<lparr>db = \<lparr>users = [\<lparr>user_key = 1, username = ''ann''\<rparr>],
            locations =
              [\<lparr>row_id = 1, user_id = 1,
                mode_fields = \<lparr>zip_code = Some ''94040'', lat = None, lon = None\<rparr>\<rparr>,
               \<lparr>row_id = 2, user_id = 1,
                mode_fields = \<lparr>zip_code = Some ''94040,jp'', lat = None, lon = None\<rparr>\<rparr>,
               \<lparr>row_id = 3, user_id = 1,
                mode_fields = \<lparr>zip_code = None, lat = Some 37.4, lon = Some (- 122.1)\<rparr>\<rparr>],
            users_id_seq = 2, locations_id_seq = 4\<rparr>,
      dbInitialized = False, issued = []\<rparr>"


definition tokyo :: forecast_doc where
  "tokyo = \<lparr>city = Some \<lparr>name = Some ''Tokyo'', country = Some ''JP''\<rparr>, entries = ''[]''\<rparr>"

definition second_fails :: "nat \<Rightarrow> string \<Rightarrow> error + forecast_doc" where
  "second_fails i url = (if i = 1 then Inl (Error ''timeout'') else Inr tokyo)"

section \<open>Basic facts\<close>

lemma db_initDB: "db (initDB w) = db w"
  by (simp add: initDB_def q_create_table_def)




subsection \<open>What the columns take\<close>



lemma column_values_coordinates:
  "column_values \<lparr>zip_code = None, lat = a, lon = b\<rparr> = Some \<lparr>zip_code = None, lat = a, lon = b\<rparr>"
  by (simp add: column_values_def)


subsection \<open>What each write does\<close>

lemma message_or_500_ran: "message_or_500 msg (True, w) = (Message msg, w)"
  and message_or_500_threw:
    "message_or_500 msg (False, w) = (Failure 500 ''internal server error'', w)"
  by (simp_all add: message_or_500_def)



lemma q_insert_location_ran:
  assumes "column_values l = Some stored" "locations_id_seq (db w) \<le> int4_max"
  shows "q_insert_location uid l w =
     (True,
      w\<lparr>db := (db w)\<lparr>locations := locations (db w) @
                        [\<lparr>row_id = locations_id_seq (db w), user_id = uid, mode_fields = stored\<rparr>],
                      locations_id_seq := Suc (locations_id_seq (db w))\<rparr>,
        issued := issued w @ [Insert_location uid l]\<rparr>)"
  using assms by (simp add: q_insert_location_def Let_def)




lemma q_delete_location_ran:
  "i \<le> int4_max \<Longrightarrow>
   q_delete_location i w =
     (True,
      w\<lparr>db := (db w)\<lparr>locations := filter (\<lambda>r. row_id r \<noteq> i) (locations (db w))\<rparr>,
        issued := issued w @ [Delete_location i]\<rparr>)"
  by (simp add: q_delete_location_def Let_def)






subsection \<open>The loop\<close>

lemma forecast_loop_eq:
  "forecast_loop nt k ax i rows data =
     data @ map (\<lambda>(j, l). forecast_one nt k (ax j) l) (enumerate i rows)"
  by (induction rows arbitrary: i data) simp_all

lemma forecast_loop_length:
  "length (forecast_loop nt k ax i rows data) = length data + length rows"
  by (simp add: forecast_loop_eq)

lemma forecast_loop_nth:
  "i < length rows \<Longrightarrow>
   forecast_loop nt k ax 0 rows [] ! i = forecast_one nt k (ax i) (rows ! i)"
  by (simp add: forecast_loop_eq nth_enumerate_eq)

lemma forecast_one_location: "location (forecast_one nt k g l) = l"
  by (simp add: forecast_one_def split: sum.splits)

lemma forecast_loop_locations:
  "map location (forecast_loop nt k ax i rows data) = map location data @ rows"
  by (induction rows arbitrary: i data) (simp_all add: forecast_one_location)

subsection \<open>The routes, once the user is found\<close>

lemma get_weather_found:
  "uname \<noteq> [] \<Longrightarrow> ids_of uname (db w) = uid # others \<Longrightarrow>
   fst (get_weather nt k ax (Some uname) w) =
     Forecasts (forecast_loop nt k ax 0 (map mode_fields (locations_of uid (db w))) [])"
  by (simp add: get_weather_def truthy_str_def template_str_def q_select_user_id_def
      q_select_zip_lat_lon_def)

lemma api_weather_found:
  "ids_of uname (db w) = uid # others \<Longrightarrow>
   fst (api_weather nt k ax uname w) =
     Forecasts (forecast_loop nt k ax 0 (map mode_fields (locations_of uid (db w))) [])"
  by (simp add: api_weather_def q_select_user_id_def q_select_zip_lat_lon_def db_initDB)


lemma api_location_add_found:
  assumes "ids_of uname (db w) = uid # others"
  shows "api_location_add uname l w =
           (if 5 \<le> length (locations_of uid (db w))
            then (Failure 400 ''max 5 locations'',
                  (initDB w)\<lparr>issued := issued (initDB w) @ [Select_user_id uname, Count_locations uid]\<rparr>)
            else message_or_500 ''location added''
                   (q_insert_location uid l
                      ((initDB w)\<lparr>issued := issued (initDB w)
                                     @ [Select_user_id uname, Count_locations uid]\<rparr>)))"
  using assms
  by (simp add: api_location_add_def q_select_user_id_def q_count_locations_def db_initDB)


lemma api_location_add_added:
  assumes "ids_of uname (db w) = uid # others"
    and "length (locations_of uid (db w)) < 5"
    and "column_values l = Some stored" "locations_id_seq (db w) \<le> int4_max"
  shows "fst (api_location_add uname l w) = Message ''location added''"
    and "db (snd (api_location_add uname l w)) =
           (db w)\<lparr>locations := locations (db w) @
                      [\<lparr>row_id = locations_id_seq (db w), user_id = uid, mode_fields = stored\<rparr>],
                    locations_id_seq := Suc (locations_id_seq (db w))\<rparr>"
  using assms(2-)
  by (simp_all add: api_location_add_found [OF assms(1)] q_insert_location_ran
      message_or_500_ran db_initDB)



subsection \<open>The URL\<close>

lemma buildForecastUrl_coordinates:
  "a \<noteq> 0 \<Longrightarrow> b \<noteq> 0 \<Longrightarrow>
   buildForecastUrl nt k \<lparr>zip_code = z, lat = Some a, lon = Some b\<rparr> =
     Inr (''https://api.openweathermap.org/data/2.5/forecast?lat='' @ nt a @ ''&lon='' @ nt b
          @ ''&appid='' @ k @ ''&units=metric'')"
  by (simp add: buildForecastUrl_def truthy_num_def template_num_def forecast_endpoint_def)


lemma buildForecastUrl_neither:
  "\<not> (truthy_num (lat l) \<and> truthy_num (lon l)) \<Longrightarrow> \<not> truthy_str (zip_code l) \<Longrightarrow>
   buildForecastUrl nt k l = Inl (Error ''Invalid location'')"
  by (simp add: buildForecastUrl_def)

lemma buildForecastUrl_examples:
  "buildForecastUrl nt k \<lparr>zip_code = Some ''94040'', lat = None, lon = None\<rparr> =
     Inr (''https://api.openweathermap.org/data/2.5/forecast?zip=94040,us&appid='' @ k
          @ ''&units=metric'')"
  "buildForecastUrl nt k \<lparr>zip_code = Some ''94040,jp'', lat = None, lon = None\<rparr> =
     Inr (''https://api.openweathermap.org/data/2.5/forecast?zip=94040,jp&appid='' @ k
          @ ''&units=metric'')"
  "buildForecastUrl nt k \<lparr>zip_code = None, lat = Some 37.4, lon = Some (- 122.1)\<rparr> =
     Inr (''https://api.openweathermap.org/data/2.5/forecast?lat='' @ nt 37.4 @ ''&lon=''
          @ nt (- 122.1) @ ''&appid='' @ k @ ''&units=metric'')"
  "buildForecastUrl nt k \<lparr>zip_code = None, lat = None, lon = None\<rparr> =
     Inl (Error ''Invalid location'')"
  by (simp_all add: buildForecastUrl_def truthy_num_def truthy_str_def template_str_def
      template_num_def forecast_endpoint_def)

subsection \<open>Users\<close>






subsection \<open>Updates that run\<close>




subsection \<open>An id that no row has\<close>



lemma snd_message_or_500: "snd (message_or_500 msg r) = snd r"
  by (simp add: message_or_500_def)


subsection \<open>Where a statement throws\<close>





subsection \<open>Listing\<close>



subsection \<open>The statements of a route\<close>

lemma issued_initDB:
  "issued (initDB w) =
     issued w @ (if dbInitialized w then [] else [Create_table ''users'', Create_table ''locations''])"
  by (simp add: initDB_def q_create_table_def)

subsection \<open>Every route keeps the constraints\<close>

lemma well_formed_empty: "well_formed empty_database"
  by (simp add: well_formed_def empty_database_def)

lemma well_formed_q_insert_user:
  "well_formed (db w) \<Longrightarrow> well_formed (db (snd (q_insert_user uname w)))"
  by (auto simp: well_formed_def q_insert_user_def Let_def less_Suc_eq split: option.splits)

lemma well_formed_q_insert_location:
  "well_formed (db w) \<Longrightarrow> well_formed (db (snd (q_insert_location uid l w)))"
  by (auto simp: well_formed_def q_insert_location_def Let_def less_Suc_eq split: option.splits)

lemma distinct_updated_rows:
  "distinct (map row_id rows) \<Longrightarrow>
   distinct (map row_id (filter (\<lambda>r. row_id r \<noteq> i) rows @
                         map (\<lambda>r. r\<lparr>mode_fields := l\<rparr>) (filter (\<lambda>r. row_id r = i) rows)))"
proof -
  have "mset (map row_id (filter (\<lambda>r. row_id r \<noteq> i) rows @
                           map (\<lambda>r. r\<lparr>mode_fields := l\<rparr>) (filter (\<lambda>r. row_id r = i) rows))) =
        mset (map row_id rows)"
    by (induction rows) auto
  then have "distinct (map row_id (filter (\<lambda>r. row_id r \<noteq> i) rows @
                           map (\<lambda>r. r\<lparr>mode_fields := l\<rparr>) (filter (\<lambda>r. row_id r = i) rows))) =
        distinct (map row_id rows)"
    by (rule mset_eq_imp_distinct_iff)
  then show "distinct (map row_id rows) \<Longrightarrow>
   distinct (map row_id (filter (\<lambda>r. row_id r \<noteq> i) rows @
                         map (\<lambda>r. r\<lparr>mode_fields := l\<rparr>) (filter (\<lambda>r. row_id r = i) rows)))"
    by blast
qed

lemma well_formed_q_update_location:
  "well_formed (db w) \<Longrightarrow> well_formed (db (snd (q_update_location i l w)))"
  using distinct_updated_rows [of "locations (db w)" i]
  by (auto simp: well_formed_def q_update_location_def Let_def split: option.splits)

lemma well_formed_q_delete_location:
  "well_formed (db w) \<Longrightarrow> well_formed (db (snd (q_delete_location i w)))"
  by (auto simp: well_formed_def q_delete_location_def Let_def distinct_map_filter)

lemma well_formed_routes:
  assumes "well_formed (db w)"
  shows "well_formed (db (snd (post_user u w)))"
    and "well_formed (db (snd (get_locations u w)))"
    and "well_formed (db (snd (post_location u p w)))"
    and "well_formed (db (snd (put_location i p w)))"
    and "well_formed (db (snd (delete_location i w)))"
    and "well_formed (db (snd (get_weather nt k ax u w)))"
    and "well_formed (db (snd (api_user_create uname w)))"
    and "well_formed (db (snd (api_location_list uname w)))"
    and "well_formed (db (snd (api_location_add uname l w)))"
    and "well_formed (db (snd (api_location_add_zip uname z w)))"
    and "well_formed (db (snd (api_location_add_lat_lon uname a b w)))"
    and "well_formed (db (snd (api_location_update_zip i z w)))"
    and "well_formed (db (snd (api_location_update_lat_lon i a b w)))"
    and "well_formed (db (snd (api_location_delete i w)))"
    and "well_formed (db (snd (api_weather nt k ax uname w)))"
proof -
  have init: "well_formed (db (initDB w))"
    using assms by (simp add: db_initDB)
  have logged: "well_formed (db (v\<lparr>issued := qs\<rparr>))" if "well_formed (db v)" for v qs
    using that by simp
  show "well_formed (db (snd (post_user u w)))"
    using assms by (simp add: post_user_def snd_message_or_500 well_formed_q_insert_user)
  show "well_formed (db (snd (get_locations u w)))"
    using assms
    by (simp add: get_locations_def q_select_user_id_def q_select_locations_def split: list.splits)
  show "well_formed (db (snd (post_location u p w)))"
    using assms
    by (simp add: post_location_def q_select_user_id_def q_count_locations_def
        snd_message_or_500 well_formed_q_insert_location split: option.splits list.splits)
  show "well_formed (db (snd (put_location i p w)))"
    using assms
    by (simp add: put_location_def snd_message_or_500 well_formed_q_update_location
        split: option.splits)
  show "well_formed (db (snd (delete_location i w)))"
    using assms by (simp add: delete_location_def snd_message_or_500 well_formed_q_delete_location)
  show "well_formed (db (snd (get_weather nt k ax u w)))"
    using assms
    by (simp add: get_weather_def q_select_user_id_def q_select_zip_lat_lon_def split: list.splits)
  show "well_formed (db (snd (api_user_create uname w)))"
    using init by (simp add: api_user_create_def snd_message_or_500 well_formed_q_insert_user)
  show "well_formed (db (snd (api_location_list uname w)))"
    using init
    by (simp add: api_location_list_def q_select_user_id_def q_select_locations_def
        split: list.splits)
  show "well_formed (db (snd (api_location_add uname l w)))" for l
    using init
    by (simp add: api_location_add_def q_select_user_id_def q_count_locations_def
        snd_message_or_500 well_formed_q_insert_location split: list.splits)
  then show "well_formed (db (snd (api_location_add_zip uname z w)))"
    and "well_formed (db (snd (api_location_add_lat_lon uname a b w)))"
    by (simp_all add: api_location_add_zip_def api_location_add_lat_lon_def)
  show "well_formed (db (snd (api_location_update_zip i z w)))"
    using init
    by (simp add: api_location_update_zip_def snd_message_or_500 well_formed_q_update_location)
  show "well_formed (db (snd (api_location_update_lat_lon i a b w)))"
    using init
    by (simp add: api_location_update_lat_lon_def snd_message_or_500
        well_formed_q_update_location)
  show "well_formed (db (snd (api_location_delete i w)))"
    using init
    by (simp add: api_location_delete_def snd_message_or_500 well_formed_q_delete_location)
  show "well_formed (db (snd (api_weather nt k ax uname w)))"
    using init
    by (simp add: api_weather_def q_select_user_id_def q_select_zip_lat_lon_def split: list.splits)
qed

section \<open>The weather response\<close>

text \<open>
  Claim C1. When the user exists, both weather routes answer with the list that has one
  element per stored location of the user, in the order of the stored locations: element
  \<open>i\<close> is the outcome of location \<open>i\<close> under the provider's answer to request \<open>i\<close>, and
  of nothing else. When no URL can be built for location \<open>i\<close>, or the provider fails on
  it, element \<open>i\<close> is \<^verbatim>\<open>{location, error}\<close> with the error's message, without
  \<^verbatim>\<open>place\<close> and \<^verbatim>\<open>forecast\<close>; the response is still the 200 list.
\<close>

theorem weather_one_result_per_location:
  assumes "uname \<noteq> []" and "ids_of uname (db w) = uid # others"
  shows "\<exists>rs. fst (get_weather nt k ax (Some uname) w) = Forecasts rs
          \<and> fst (api_weather nt k ax uname w) = Forecasts rs
          \<and> length rs = length (locations_of uid (db w))
          \<and> map location rs = map mode_fields (locations_of uid (db w))
          \<and> (\<forall>i < length rs. rs ! i =
                forecast_one nt k (ax i) (mode_fields (locations_of uid (db w) ! i)))
          \<and> (\<forall>i < length rs. \<forall>e.
                (buildForecastUrl nt k (mode_fields (locations_of uid (db w) ! i)) = Inl e
                 \<or> (\<exists>url. buildForecastUrl nt k (mode_fields (locations_of uid (db w) ! i)) = Inr url
                       \<and> ax i url = Inl e)) \<longrightarrow>
                rs ! i = \<lparr>location = mode_fields (locations_of uid (db w) ! i), place = None,
                          forecast = None, error = Some (message e)\<rparr>)"
proof -
  let ?rows = "map mode_fields (locations_of uid (db w))"
  let ?rs = "forecast_loop nt k ax 0 ?rows []"
  have full: "fst (get_weather nt k ax (Some uname) w) = Forecasts ?rs"
    using assms by (rule get_weather_found)
  have path: "fst (api_weather nt k ax uname w) = Forecasts ?rs"
    using assms(2) by (rule api_weather_found)
  have len: "length ?rs = length (locations_of uid (db w))"
    by (simp add: forecast_loop_length)
  have order: "map location ?rs = ?rows"
    by (simp add: forecast_loop_locations)
  have each: "\<forall>i < length ?rs. ?rs ! i =
      forecast_one nt k (ax i) (mode_fields (locations_of uid (db w) ! i))"
    using len by (simp add: forecast_loop_nth)
  have inline: "\<forall>i < length ?rs. \<forall>e.
      (buildForecastUrl nt k (mode_fields (locations_of uid (db w) ! i)) = Inl e
       \<or> (\<exists>url. buildForecastUrl nt k (mode_fields (locations_of uid (db w) ! i)) = Inr url
             \<and> ax i url = Inl e)) \<longrightarrow>
      ?rs ! i = \<lparr>location = mode_fields (locations_of uid (db w) ! i), place = None,
                  forecast = None, error = Some (message e)\<rparr>"
    using each by (auto simp: forecast_one_def)
  from full path len order each inline show ?thesis by blast
qed

theorem weather_one_result_per_location_witness:
  "''ann'' \<noteq> [] \<and> ids_of ''ann'' (db ann_world) = [1]
   \<and> (\<exists>rs. fst (get_weather (\<lambda>r. ''n'') ''key'' second_fails (Some ''ann'') ann_world) = Forecasts rs
         \<and> fst (api_weather (\<lambda>r. ''n'') ''key'' second_fails ''ann'' ann_world) = Forecasts rs
         \<and> length rs = 3
         \<and> rs ! 0 = \<lparr>location = \<lparr>zip_code = Some ''94040'', lat = None, lon = None\<rparr>,
                     place = Some ''Tokyo, JP'', forecast = Some tokyo, error = None\<rparr>
         \<and> rs ! 1 = \<lparr>location = \<lparr>zip_code = Some ''94040,jp'', lat = None, lon = None\<rparr>,
                     place = None, forecast = None, error = Some ''timeout''\<rparr>
         \<and> rs ! 2 = \<lparr>location = \<lparr>zip_code = None, lat = Some 37.4, lon = Some (- 122.1)\<rparr>,
                     place = Some ''Tokyo, JP'', forecast = Some tokyo, error = None\<rparr>)"
proof -
  let ?nt = "\<lambda>r::real. ''n''"
  have user: "ids_of ''ann'' (db ann_world) = [1]"
    by (simp add: ids_of_def ann_world_def)
  obtain rs
    where full: "fst (get_weather ?nt ''key'' second_fails (Some ''ann'') ann_world) = Forecasts rs"
      and path: "fst (api_weather ?nt ''key'' second_fails ''ann'' ann_world) = Forecasts rs"
      and len: "length rs = length (locations_of 1 (db ann_world))"
      and each: "\<forall>i < length rs. rs ! i =
        forecast_one ?nt ''key'' (second_fails i) (mode_fields (locations_of 1 (db ann_world) ! i))"
    using weather_one_result_per_location
      [of "''ann''" ann_world 1 "[]" ?nt "''key''" second_fails] user
    by auto
  have three: "length rs = 3"
    using len by (simp add: locations_of_def ann_world_def)
  have r0: "rs ! 0 = \<lparr>location = \<lparr>zip_code = Some ''94040'', lat = None, lon = None\<rparr>,
                     place = Some ''Tokyo, JP'', forecast = Some tokyo, error = None\<rparr>"
    using each three
    by (simp add: locations_of_def ann_world_def forecast_one_def buildForecastUrl_def
        truthy_num_def truthy_str_def template_str_def second_fails_def place_of_def tokyo_def
        str_or_null_def)
  have r1: "rs ! 1 = \<lparr>location = \<lparr>zip_code = Some ''94040,jp'', lat = None, lon = None\<rparr>,
                     place = None, forecast = None, error = Some ''timeout''\<rparr>"
    using each three
    by (simp add: locations_of_def ann_world_def forecast_one_def buildForecastUrl_def
        truthy_num_def truthy_str_def template_str_def second_fails_def)
  have r2: "rs ! 2 = \<lparr>location = \<lparr>zip_code = None, lat = Some 37.4, lon = Some (- 122.1)\<rparr>,
                     place = Some ''Tokyo, JP'', forecast = Some tokyo, error = None\<rparr>"
    using each three
    by (simp add: locations_of_def ann_world_def forecast_one_def buildForecastUrl_def
        truthy_num_def truthy_str_def template_str_def second_fails_def place_of_def tokyo_def
        str_or_null_def template_num_def)
  from user full path three r0 r1 r2 show ?thesis by blast
qed

section \<open>The shape of a payload\<close>

text \<open>
  Claim C2. The claim has a payload rejected exactly when it has neither a zip nor a
  complete coordinate pair, or has a zip together with a coordinate component. The two
  checks of full.js test truthiness instead of presence, so a coordinate that is the
  number zero counts as absent: the complete pair \<open>(0, 5)\<close> is answered with
  \<^verbatim>\<open>Either zip or lat/lon required\<close> by both \<^verbatim>\<open>POST /location\<close> and
  \<^verbatim>\<open>PUT /location/:id\<close>, and a zip sent together with the latitude \<open>0\<close> passes both
  checks. The path route of test.js stores the same pair.
\<close>

theorem zero_coordinate_rejected_as_missing:
  "post_location (Some ''ann'') \<lparr>zip_code = None, lat = Some 0, lon = Some 5\<rparr> w =
     (Failure 400 ''Either zip or lat/lon required'', w)
   \<and> put_location i \<lparr>zip_code = None, lat = Some 0, lon = Some 5\<rparr> w =
     (Failure 400 ''Either zip or lat/lon required'', w)
   \<and> shape_error \<lparr>zip_code = Some ''94040'', lat = Some 0, lon = None\<rparr> = None
   \<and> fst (api_location_add_lat_lon ''ann'' 0 5 ann_world) = Message ''location added''"
proof -
  have user: "ids_of ''ann'' (db ann_world) = [1]"
    by (simp add: ids_of_def ann_world_def)
  have "fst (api_location_add_lat_lon ''ann'' 0 5 ann_world) = Message ''location added''"
    unfolding api_location_add_lat_lon_def
    by (rule api_location_add_added [OF user _ column_values_coordinates])
      (simp_all add: locations_of_def ann_world_def int4_max_def)
  then show ?thesis
    by (simp add: post_location_def put_location_def shape_error_def truthy_str_def
        truthy_num_def)
qed

text \<open>Where no coordinate is zero and no zip is the empty string, the two checks reject
  exactly the payloads the claim names.\<close>

lemma shape_error_presence:
  assumes "zip_code p \<noteq> Some []" "lat p \<noteq> Some 0" "lon p \<noteq> Some 0"
  shows "shape_error p \<noteq> None \<longleftrightarrow>
           (zip_code p = None \<and> (lat p = None \<or> lon p = None))
           \<or> (zip_code p \<noteq> None \<and> (lat p \<noteq> None \<or> lon p \<noteq> None))"
  using assms
  by (cases "zip_code p"; cases "lat p"; cases "lon p")
    (simp_all add: shape_error_def truthy_str_def truthy_num_def)

section \<open>The cap\<close>




section \<open>The URL of a location\<close>

text \<open>
  Claim C4. The claim has a coordinate URL whenever both coordinates are present.
  \<^verbatim>\<open>buildForecastUrl\<close> tests \<^verbatim>\<open>lat && lon\<close>, so the pair \<open>(0, 5)\<close> is not taken as
  coordinates; with no zip the builder throws \<^verbatim>\<open>Invalid location\<close>. Such a row is
  stored by the path route of test.js, and the weather of its user then holds that error
  for it, whatever the provider answers. The rest of the claim holds as it stands, by
  the lemmas on \<^verbatim>\<open>buildForecastUrl\<close> above.
\<close>

theorem zero_coordinate_has_no_url:
  "buildForecastUrl nt k \<lparr>zip_code = None, lat = Some 0, lon = Some 5\<rparr> =
     Inl (Error ''Invalid location'')
   \<and> (\<exists>rs. fst (api_weather nt k ax ''ann'' (snd (api_location_add_lat_lon ''ann'' 0 5 ann_world)))
              = Forecasts rs
         \<and> rs ! 3 = \<lparr>location = \<lparr>zip_code = None, lat = Some 0, lon = Some 5\<rparr>, place = None,
                     forecast = None, error = Some ''Invalid location''\<rparr>)"
proof -
  let ?w = "snd (api_location_add_lat_lon ''ann'' 0 5 ann_world)"
  have thrown: "buildForecastUrl nt k \<lparr>zip_code = None, lat = Some 0, lon = Some 5\<rparr> =
      Inl (Error ''Invalid location'')"
    by (simp add: buildForecastUrl_def truthy_num_def truthy_str_def)
  have user: "ids_of ''ann'' (db ann_world) = [1]"
    by (simp add: ids_of_def ann_world_def)
  have added: "db ?w = (db ann_world)\<lparr>locations := locations (db ann_world) @
      [\<lparr>row_id = locations_id_seq (db ann_world), user_id = 1,
        mode_fields = \<lparr>zip_code = None, lat = Some 0, lon = Some 5\<rparr>\<rparr>],
      locations_id_seq := Suc (locations_id_seq (db ann_world))\<rparr>"
    unfolding api_location_add_lat_lon_def
    by (rule api_location_add_added [OF user _ column_values_coordinates])
      (simp_all add: locations_of_def ann_world_def int4_max_def)
  then have rows: "map mode_fields (locations_of 1 (db ?w)) =
      map mode_fields (locations (db ann_world)) @ [\<lparr>zip_code = None, lat = Some 0, lon = Some 5\<rparr>]"
    by (simp add: locations_of_def ann_world_def)
  have user': "ids_of ''ann'' (db ?w) = [1]"
    using user by (simp add: ids_of_def added)
  have "fst (api_weather nt k ax ''ann'' ?w) =
      Forecasts (forecast_loop nt k ax 0 (map mode_fields (locations_of 1 (db ?w))) [])"
    using user' by (rule api_weather_found)
  moreover have "forecast_loop nt k ax 0 (map mode_fields (locations_of 1 (db ?w))) [] ! 3 =
      \<lparr>location = \<lparr>zip_code = None, lat = Some 0, lon = Some 5\<rparr>, place = None,
        forecast = None, error = Some ''Invalid location''\<rparr>"
    unfolding rows by (simp add: forecast_loop_nth ann_world_def forecast_one_def thrown)
  ultimately show ?thesis
    using thrown by blast
qed

section \<open>The place of a forecast\<close>

text \<open>
  Claim C5. For a response document of the provider: with a city name and a country the
  place is \<^verbatim>\<open>name, country\<close>; with a city name and no country it is the name; with
  neither, or with no \<^verbatim>\<open>city\<close> at all, it is the text \<^verbatim>\<open>null\<close>, which is how the
  template renders the unknown name. Whatever the document holds, the element is the
  success element \<^verbatim>\<open>{location, place, forecast}\<close> and has no \<^verbatim>\<open>error\<close>.
\<close>

theorem place_composition:
  "(n \<noteq> [] \<and> c \<noteq> [] \<longrightarrow>
      place_of \<lparr>city = Some \<lparr>name = Some n, country = Some c\<rparr>, entries = x\<rparr> = n @ '', '' @ c)
   \<and> (n \<noteq> [] \<longrightarrow>
      place_of \<lparr>city = Some \<lparr>name = Some n, country = None\<rparr>, entries = x\<rparr> = n)
   \<and> place_of \<lparr>city = Some \<lparr>name = None, country = None\<rparr>, entries = x\<rparr> = ''null''
   \<and> place_of \<lparr>city = None, entries = x\<rparr> = ''null''
   \<and> (buildForecastUrl nt k l = Inr url \<and> get url = Inr doc \<longrightarrow>
        forecast_one nt k get l =
          \<lparr>location = l, place = Some (place_of doc), forecast = Some doc, error = None\<rparr>)"
  by (simp add: place_of_def str_or_null_def truthy_str_def template_str_def forecast_one_def)

theorem place_composition_witness:
  "''Tokyo'' \<noteq> [] \<and> ''JP'' \<noteq> []
   \<and> place_of \<lparr>city = Some \<lparr>name = Some ''Tokyo'', country = Some ''JP''\<rparr>, entries = ''[]''\<rparr>
       = ''Tokyo, JP''
   \<and> place_of \<lparr>city = Some \<lparr>name = Some ''Tokyo'', country = None\<rparr>, entries = ''[]''\<rparr>
       = ''Tokyo''
   \<and> buildForecastUrl (\<lambda>r. ''n'') ''key'' \<lparr>zip_code = Some ''94040'', lat = None, lon = None\<rparr>
       = Inr ''https://api.openweathermap.org/data/2.5/forecast?zip=94040,us&appid=key&units=metric''
   \<and> forecast_one (\<lambda>r. ''n'') ''key'' (\<lambda>url. Inr \<lparr>city = None, entries = ''[]''\<rparr>)
         \<lparr>zip_code = Some ''94040'', lat = None, lon = None\<rparr>
       = \<lparr>location = \<lparr>zip_code = Some ''94040'', lat = None, lon = None\<rparr>, place = Some ''null'',
          forecast = Some \<lparr>city = None, entries = ''[]''\<rparr>, error = None\<rparr>"
proof -
  have url: "buildForecastUrl (\<lambda>r. ''n'') ''key'' \<lparr>zip_code = Some ''94040'', lat = None, lon = None\<rparr>
       = Inr ''https://api.openweathermap.org/data/2.5/forecast?zip=94040,us&appid=key&units=metric''"
    by (simp add: buildForecastUrl_examples)
  show ?thesis
    using place_composition [of "''Tokyo''" "''JP''" "''[]''" "\<lambda>r. ''n''" "''key''"
        "\<lparr>zip_code = Some ''94040'', lat = None, lon = None\<rparr>" _
        "\<lambda>url. Inr \<lparr>city = None, entries = ''[]''\<rparr>" "\<lparr>city = None, entries = ''[]''\<rparr>"]
      url
    by simp
qed

section \<open>Updates\<close>




section \<open>Creating a user\<close>




section \<open>An id that no row has\<close>




section \<open>What the weather routes do to the store\<close>

text \<open>On a process that has not yet run \<^verbatim>\<open>initDB\<close>, the weather route of test.js first
  sends the two \<^verbatim>\<open>CREATE TABLE IF NOT EXISTS\<close> statements.\<close>

theorem weather_first_sets_up_schema_counterexample:
  "issued (snd (api_weather (\<lambda>r. ''n'') ''key'' second_fails ''ann'' ann_world)) =
     [Create_table ''users'', Create_table ''locations'', Select_user_id ''ann'',
      Select_zip_lat_lon 1]
   \<and> \<not> list_all is_lookup
         (issued (snd (api_weather (\<lambda>r. ''n'') ''key'' second_fails ''ann'' ann_world)))"
proof -
  have "issued (snd (api_weather (\<lambda>r. ''n'') ''key'' second_fails ''ann'' ann_world)) =
     [Create_table ''users'', Create_table ''locations'', Select_user_id ''ann'',
      Select_zip_lat_lon 1]"
    by (simp add: api_weather_def q_select_user_id_def q_select_zip_lat_lon_def db_initDB
        issued_initDB ids_of_def ann_world_def)
  then show ?thesis by simp
qed

text \<open>
  Claim C9, amended. Neither weather route changes the database, whatever the provider
  answers. \<^verbatim>\<open>GET /weather\<close> sends lookups only. \<^verbatim>\<open>GET /api/weather/:username\<close> sends
  lookups only once the process flag is set; before that it first sends the two
  \<^verbatim>\<open>CREATE TABLE IF NOT EXISTS\<close> statements of \<^verbatim>\<open>initDB\<close>, and lookups after them.
\<close>

theorem weather_leaves_the_tables:
  "db (snd (get_weather nt k ax u w)) = db w
   \<and> db (snd (api_weather nt k ax uname w)) = db w
   \<and> (\<exists>qs. issued (snd (get_weather nt k ax u w)) = issued w @ qs \<and> list_all is_lookup qs)
   \<and> (\<exists>qs. issued (snd (api_weather nt k ax uname w)) =
             issued w
             @ (if dbInitialized w then [] else [Create_table ''users'', Create_table ''locations''])
             @ qs
           \<and> list_all is_lookup qs)"
proof -
  have full_db: "db (snd (get_weather nt k ax u w)) = db w"
    by (simp add: get_weather_def q_select_user_id_def q_select_zip_lat_lon_def
        split: list.splits)
  have path_db: "db (snd (api_weather nt k ax uname w)) = db w"
    by (simp add: api_weather_def q_select_user_id_def q_select_zip_lat_lon_def db_initDB
        split: list.splits)
  have full_log: "\<exists>qs. issued (snd (get_weather nt k ax u w)) = issued w @ qs \<and> list_all is_lookup qs"
    by (simp add: get_weather_def q_select_user_id_def q_select_zip_lat_lon_def
        split: list.splits)
  have path_log: "\<exists>qs. issued (snd (api_weather nt k ax uname w)) =
             issued w
             @ (if dbInitialized w then [] else [Create_table ''users'', Create_table ''locations''])
             @ qs
           \<and> list_all is_lookup qs"
    by (simp add: api_weather_def q_select_user_id_def q_select_zip_lat_lon_def db_initDB
        issued_initDB split: list.splits)
  from full_db path_db full_log path_log show ?thesis by blast
qed

section \<open>The zip as stored\<close>




end
